theory Spec2Isabelle
  imports Complex_Main "HOL-Library.Word" "HOL-Library.AList"
begin

section \<open>JavaScript values as the server sees them\<close>

text \<open>
  The program is \<^verbatim>\<open>src/server.js\<close>, an Express relay in front of a generative model.
  A JavaScript string is a sequence of UTF-16 code units, and \<^verbatim>\<open>slice\<close> counts
  code units, so a string is a list of 16-bit words. \<open>lit\<close> embeds an ASCII literal of
  the source.
\<close>

type_synonym jsstring = "16 word list"

definition lit :: "string \<Rightarrow> jsstring" where
  "lit s = map (\<lambda>c. of_nat (of_char c)) s"

text \<open>
  A JavaScript number is an IEEE double. \<open>Fin x\<close> is the finite double of value \<open>x\<close>
  (both zeros are \<open>Fin 0\<close>: the server never tells them apart, and
  \<^verbatim>\<open>Math.max(0, -0)\<close> is \<open>+0\<close>). The server only compares numbers and takes
  minima and maxima, which are exact on doubles, so no rounding is involved.
\<close>

datatype jsnum = Fin real | NaN | PosInf | NegInf

text \<open>
  The values that \<^verbatim>\<open>JSON.parse\<close> builds, and \<^verbatim>\<open>undefined\<close>, which a missing
  property reads as. An object is the list of its own properties in insertion order;
  a lookup takes the first entry of a key.
\<close>

datatype jsval =
    JUndefined
  | JNull
  | JBool bool
  | JNum jsnum
  | JStr jsstring
  | JArr "jsval list"
  | JObj "(jsstring \<times> jsval) list"

text \<open>
  A thrown value, kept as the text that \<^verbatim>\<open>String(err?.message || err)\<close> gives for
  it in a \<^verbatim>\<open>catch\<close> block.
\<close>

datatype exn = Thrown jsstring

text \<open>
  The language built-ins the server calls, taken as parameters: every theorem below
  holds whatever they compute. \<open>JSON_parse\<close> returns \<open>None\<close> where
  \<^verbatim>\<open>JSON.parse\<close> throws a SyntaxError.
\<close>

record js_builtins =
  JSON_parse :: "jsstring \<Rightarrow> jsval option"
  JSON_stringify :: "jsval \<Rightarrow> jsstring"
  StringToNumber :: "jsstring \<Rightarrow> jsnum"
  NumberToString :: "jsnum \<Rightarrow> jsstring"

subsection \<open>Property access and coercions\<close>

text \<open>
  \<^verbatim>\<open>v?.k\<close> for the property names the server reads (\<^verbatim>\<open>emails\<close>, \<^verbatim>\<open>id\<close>,
  \<^verbatim>\<open>results\<close>, \<^verbatim>\<open>ok\<close>, ...): none of them is an index, \<^verbatim>\<open>length\<close> or a
  member of a built-in prototype, so only an object's own property can answer.
  The two plain accesses of the source, \<^verbatim>\<open>parsed.results\<close> and \<^verbatim>\<open>parsed.ok\<close>,
  are guarded by the truthiness of \<^verbatim>\<open>parsed\<close>, and \<^verbatim>\<open>r.reasons\<close> by
  \<^verbatim>\<open>Array.isArray(r?.reasons)\<close>, so they never meet \<^verbatim>\<open>null\<close> or
  \<^verbatim>\<open>undefined\<close>.
\<close>

fun get_prop :: "jsval \<Rightarrow> jsstring \<Rightarrow> jsval" where
  "get_prop (JObj kvs) k = (case map_of kvs k of Some v \<Rightarrow> v | None \<Rightarrow> JUndefined)"
| "get_prop v k = JUndefined"

text \<open>
  \<^verbatim>\<open>o.k = v\<close> on an object: an existing property keeps its place. The server assigns
  only to \<^verbatim>\<open>parsed.results\<close>, after it has seen that \<^verbatim>\<open>parsed\<close> is an object.
\<close>

fun set_prop :: "jsval \<Rightarrow> jsstring \<Rightarrow> jsval \<Rightarrow> jsval" where
  "set_prop (JObj kvs) k v = JObj (AList.update k v kvs)"
| "set_prop w k v = w"

text \<open>\<^verbatim>\<open>Object.keys(v)\<close>: the names of the own properties, in their order.\<close>

fun obj_keys :: "jsval \<Rightarrow> jsstring list" where
  "obj_keys (JObj kvs) = map fst kvs"
| "obj_keys v = []"

fun is_array :: "jsval \<Rightarrow> bool" where
  "is_array (JArr xs) = True"
| "is_array v = False"

fun to_boolean :: "jsval \<Rightarrow> bool" where
  "to_boolean JUndefined = False"
| "to_boolean JNull = False"
| "to_boolean (JBool b) = b"
| "to_boolean (JNum x) = (x \<noteq> NaN \<and> x \<noteq> Fin 0)"
| "to_boolean (JStr s) = (s \<noteq> [])"
| "to_boolean (JArr xs) = True"
| "to_boolean (JObj kvs) = True"

definition nullish_or :: "jsval \<Rightarrow> jsval \<Rightarrow> jsval" where
  "nullish_or v d = (if v = JUndefined \<or> v = JNull then d else v)"

fun sequence_sum :: "('e + 'a) list \<Rightarrow> 'e + 'a list" where
  "sequence_sum [] = Inr []"
| "sequence_sum (x # xs) =
     (case x of
        Inl e \<Rightarrow> Inl e
      | Inr v \<Rightarrow> (case sequence_sum xs of Inl e \<Rightarrow> Inl e | Inr vs \<Rightarrow> Inr (v # vs)))"

fun join_comma :: "jsstring list \<Rightarrow> jsstring" where
  "join_comma [] = []"
| "join_comma [s] = s"
| "join_comma (s # t # ts) = s @ lit '','' @ join_comma (t # ts)"

definition cannot_convert :: exn where
  "cannot_convert = Thrown (lit ''Cannot convert object to primitive value'')"

text \<open>
  \<^verbatim>\<open>String(v)\<close>. An array joins the strings of its elements with commas, the empty
  string standing for \<^verbatim>\<open>null\<close> and \<^verbatim>\<open>undefined\<close>. A parsed object answers
  \<^verbatim>\<open>[object Object]\<close>, unless it has an own property \<^verbatim>\<open>toString\<close>: that one
  is data, not a function, the inherited \<^verbatim>\<open>valueOf\<close> returns the object itself,
  and the conversion throws a TypeError.
\<close>

fun to_string :: "js_builtins \<Rightarrow> jsval \<Rightarrow> exn + jsstring" where
  "to_string B JUndefined = Inr (lit ''undefined'')"
| "to_string B JNull = Inr (lit ''null'')"
| "to_string B (JBool b) = Inr (if b then lit ''true'' else lit ''false'')"
| "to_string B (JNum x) = Inr (NumberToString B x)"
| "to_string B (JStr s) = Inr s"
| "to_string B (JArr xs) =
     (case sequence_sum
             (map (\<lambda>x. if x = JUndefined \<or> x = JNull then Inr [] else to_string B x) xs) of
        Inl e \<Rightarrow> Inl e
      | Inr ss \<Rightarrow> Inr (join_comma ss))"
| "to_string B (JObj kvs) =
     (case map_of kvs (lit ''toString'') of
        Some f \<Rightarrow> Inl cannot_convert
      | None \<Rightarrow> Inr (lit ''[object Object]''))"

text \<open>
  \<^verbatim>\<open>Number(v)\<close>: an array or object is first turned into a primitive, which for the
  values above is its string.
\<close>

fun to_number :: "js_builtins \<Rightarrow> jsval \<Rightarrow> exn + jsnum" where
  "to_number B JUndefined = Inr NaN"
| "to_number B JNull = Inr (Fin 0)"
| "to_number B (JBool b) = Inr (Fin (if b then 1 else 0))"
| "to_number B (JNum x) = Inr x"
| "to_number B (JStr s) = Inr (StringToNumber B s)"
| "to_number B v =
     (case to_string B v of Inl e \<Rightarrow> Inl e | Inr s \<Rightarrow> Inr (StringToNumber B s))"

fun is_finite :: "jsnum \<Rightarrow> bool" where
  "is_finite (Fin x) = True"
| "is_finite y = False"

fun math_min :: "jsnum \<Rightarrow> jsnum \<Rightarrow> jsnum" where
  "math_min NaN y = NaN"
| "math_min x NaN = NaN"
| "math_min NegInf y = NegInf"
| "math_min x NegInf = NegInf"
| "math_min PosInf y = y"
| "math_min x PosInf = x"
| "math_min (Fin a) (Fin b) = Fin (min a b)"

fun math_max :: "jsnum \<Rightarrow> jsnum \<Rightarrow> jsnum" where
  "math_max NaN y = NaN"
| "math_max x NaN = NaN"
| "math_max PosInf y = PosInf"
| "math_max x PosInf = PosInf"
| "math_max NegInf y = y"
| "math_max x NegInf = x"
| "math_max (Fin a) (Fin b) = Fin (max a b)"

section \<open>Normalising the model's answer\<close>

text \<open>\<^verbatim>\<open>clamp01\<close>, lines 154 to 158.\<close>

definition clamp01 :: "js_builtins \<Rightarrow> jsval \<Rightarrow> exn + jsnum" where
  "clamp01 B n =
     (case to_number B n of
        Inl e \<Rightarrow> Inl e
      | Inr x \<Rightarrow>
          if \<not> is_finite x then Inr (Fin 0)
          else Inr (math_max (Fin 0) (math_min (Fin 1) x)))"

text \<open>
  The confidence rule in the words of the specification, on the input itself: a finite
  number is clamped, anything else gives 0.
\<close>

fun spec_confidence :: "jsval \<Rightarrow> jsnum" where
  "spec_confidence (JNum (Fin x)) = Fin (min 1 (max 0 x))"
| "spec_confidence v = Fin 0"

text \<open>\<^verbatim>\<open>Array.isArray(x) ? x.slice(0, 8) : []\<close>, line 163.\<close>

fun normalize_reasons :: "jsval \<Rightarrow> jsval" where
  "normalize_reasons (JArr xs) = JArr (take 8 xs)"
| "normalize_reasons v = JArr []"

text \<open>The callback of \<^verbatim>\<open>parsed.results.map\<close>, lines 159 to 164.\<close>

definition normalize_result :: "js_builtins \<Rightarrow> jsval \<Rightarrow> exn + jsval" where
  "normalize_result B r =
     (case clamp01 B (get_prop r (lit ''confidence'')) of
        Inl e \<Rightarrow> Inl e
      | Inr c \<Rightarrow>
          Inr (JObj [(lit ''id'', get_prop r (lit ''id'')),
                     (lit ''isPhishing'', JBool (to_boolean (get_prop r (lit ''isPhishing'')))),
                     (lit ''confidence'', JNum c),
                     (lit ''reasons'', normalize_reasons (get_prop r (lit ''reasons'')))]))"

section \<open>Process state and the external model\<close>

text \<open>
  The object that \<^verbatim>\<open>genAI.getGenerativeModel({ model: name })\<close> returns: a handle
  on the model of that name.
\<close>

datatype model_handle = GenerativeModel jsstring

text \<open>
  One \<^verbatim>\<open>generateContent\<close> call: the handle it is made on and its argument. The
  outside world answers the call number \<open>k\<close> of the process with the text of
  \<^verbatim>\<open>resp.response.text()\<close>, or throws.
\<close>

record call =
  call_model :: model_handle
  call_request :: jsval

type_synonym world = "nat \<Rightarrow> call \<Rightarrow> exn + jsstring"

text \<open>
  The module's variables: \<^verbatim>\<open>apiKey\<close> (line 30; \<^verbatim>\<open>undefined\<close> is \<open>None\<close>),
  \<^verbatim>\<open>MODEL_IN_USE\<close> and \<^verbatim>\<open>model\<close> (lines 46 and 47; \<^verbatim>\<open>null\<close> is \<open>None\<close>),
  and the log of the external calls made so far, which the source does not keep and
  the model adds to tell whether a call was attempted.
\<close>

record server_state =
  apiKey :: "jsstring option"
  MODEL_IN_USE :: "jsstring option"
  model :: "model_handle option"
  calls :: "call list"

text \<open>Truthiness of a variable that holds a string, \<^verbatim>\<open>null\<close> or \<^verbatim>\<open>undefined\<close>.\<close>

fun truthy :: "jsstring option \<Rightarrow> bool" where
  "truthy None = False"
| "truthy (Some s) = (s \<noteq> [])"

text \<open>\<^verbatim>\<open>v || null\<close> for such a variable.\<close>

definition or_null :: "jsstring option \<Rightarrow> jsstring option" where
  "or_null v = (if truthy v then v else None)"

text \<open>
  The state after the module is loaded, from the two environment variables
  \<^verbatim>\<open>GOOGLE_API_KEY\<close> and \<^verbatim>\<open>GEMINI_MODEL\<close>.
\<close>

definition initial_state :: "jsstring option \<Rightarrow> jsstring option \<Rightarrow> server_state" where
  "initial_state env_key env_model =
     \<lparr>apiKey = env_key, MODEL_IN_USE = or_null env_model, model = None, calls = []\<rparr>"

text \<open>\<^verbatim>\<open>genAI\<close> (line 34) is an object exactly when \<^verbatim>\<open>apiKey\<close> is truthy.\<close>

definition genAI :: "server_state \<Rightarrow> bool" where
  "genAI s = truthy (apiKey s)"

definition CANDIDATE_MODELS :: "jsstring list" where
  "CANDIDATE_MODELS =
     [lit ''gemini-1.5-flash-latest'',
      lit ''gemini-1.5-flash'',
      lit ''gemini-1.5-pro-latest'',
      lit ''gemini-1.5-pro'',
      lit ''gemini-1.0-pro'',
      lit ''gemini-pro'']"

definition user_turn :: "jsstring \<Rightarrow> jsval" where
  "user_turn t =
     JObj [(lit ''role'', JStr (lit ''user'')),
           (lit ''parts'', JArr [JObj [(lit ''text'', JStr t)]])]"

definition generate_request :: "jsval list \<Rightarrow> jsval" where
  "generate_request turns =
     JObj [(lit ''contents'', JArr turns),
           (lit ''generationConfig'',
              JObj [(lit ''responseMimeType'', JStr (lit ''application/json''))])]"

definition probe_request :: jsval where
  \<open>probe_request = generate_request [user_turn (lit ''Return {"ok":true} exactly.'')]\<close>

text \<open>Making one call: it is logged, and the world answers by its number.\<close>

definition generateContent ::
  "world \<Rightarrow> server_state \<Rightarrow> model_handle \<Rightarrow> jsval \<Rightarrow> (exn + jsstring) \<times> server_state" where
  "generateContent W s m req =
     (let c = \<lparr>call_model = m, call_request = req\<rparr>
      in (W (length (calls s)) c, s\<lparr>calls := calls s @ [c]\<rparr>))"

section \<open>Model resolution at startup\<close>

text \<open>
  \<^verbatim>\<open>tryModel\<close>, lines 50 to 64: every failure is swallowed and gives \<^verbatim>\<open>null\<close>.
\<close>

definition tryModel ::
  "js_builtins \<Rightarrow> world \<Rightarrow> server_state \<Rightarrow> jsstring \<Rightarrow> model_handle option \<times> server_state" where
  "tryModel B W s name =
     (let m = GenerativeModel name
      in case generateContent W s m probe_request of
           (Inl e, s') \<Rightarrow> (None, s')
         | (Inr txt, s') \<Rightarrow>
             (case JSON_parse B txt of
                None \<Rightarrow> (None, s')
              | Some parsed \<Rightarrow>
                  if to_boolean parsed \<and> get_prop parsed (lit ''ok'') = JBool True
                  then (Some m, s') else (None, s')))"

text \<open>
  The probe call that \<^verbatim>\<open>tryModel(name)\<close> makes, and the test it applies to the
  answer (lines 57 to 59): the call returned, its text parses, and the parsed value is
  truthy with \<^verbatim>\<open>ok === true\<close>.
\<close>

definition probe_call :: "jsstring \<Rightarrow> call" where
  "probe_call name = \<lparr>call_model = GenerativeModel name, call_request = probe_request\<rparr>"

definition probe_passes :: "js_builtins \<Rightarrow> exn + jsstring \<Rightarrow> bool" where
  "probe_passes B reply =
     (case reply of
        Inl e \<Rightarrow> False
      | Inr txt \<Rightarrow>
          (case JSON_parse B txt of
             None \<Rightarrow> False
           | Some parsed \<Rightarrow> to_boolean parsed \<and> get_prop parsed (lit ''ok'') = JBool True))"

text \<open>The loop over the candidates, lines 73 to 82.\<close>

fun try_candidates ::
  "js_builtins \<Rightarrow> world \<Rightarrow> server_state \<Rightarrow> jsstring list \<Rightarrow> server_state" where
  "try_candidates B W s [] = s"
| "try_candidates B W s (candidate # rest) =
     (case tryModel B W s candidate of
        (Some m, s') \<Rightarrow> s'\<lparr>MODEL_IN_USE := Some candidate, model := Some m\<rparr>
      | (None, s') \<Rightarrow> try_candidates B W s' rest)"

text \<open>\<^verbatim>\<open>initModel\<close>, lines 66 to 83.\<close>

definition initModel :: "js_builtins \<Rightarrow> world \<Rightarrow> server_state \<Rightarrow> server_state" where
  "initModel B W s =
     (if \<not> genAI s then s
      else case or_null (MODEL_IN_USE s) of
        Some requested \<Rightarrow>
          (case tryModel B W s requested of
             (Some m, s') \<Rightarrow> s'\<lparr>model := Some m\<rparr>
           | (None, s') \<Rightarrow> try_candidates B W s' CANDIDATE_MODELS)
      | None \<Rightarrow> try_candidates B W s CANDIDATE_MODELS)"

section \<open>The routes\<close>

record response =
  status :: nat
  body :: jsval

text \<open>
  \<^verbatim>\<open>res.status(code).json(v)\<close>: the response is the status and the value handed to
  \<^verbatim>\<open>json\<close>; serialising it is Express's work.
\<close>

definition error_response :: "nat \<Rightarrow> string \<Rightarrow> response" where
  "error_response code msg = \<lparr>status = code, body = JObj [(lit ''error'', JStr (lit msg))]\<rparr>"

text \<open>\<^verbatim>\<open>GET /api/ping-gen\<close>, lines 85 to 96.\<close>

definition get_api_ping_gen :: "world \<Rightarrow> server_state \<Rightarrow> response \<times> server_state" where
  "get_api_ping_gen W s =
     (case model s of
        None \<Rightarrow> (error_response 503 ''Model not initialized'', s)
      | Some m \<Rightarrow>
          (case generateContent W s m probe_request of
             (Inl (Thrown d), s') \<Rightarrow> (\<lparr>status = 500, body = JObj [(lit ''error'', JStr d)]\<rparr>, s')
           | (Inr txt, s') \<Rightarrow> (\<lparr>status = 200, body = JStr txt\<rparr>, s')))"

definition SYSTEM_INSTRUCTIONS :: jsstring where
  \<open>SYSTEM_INSTRUCTIONS =
     [10] @ concat (map (\<lambda>l. lit l @ [10])
       [''You are a phishing email classifier.'',
        ''analyze the email and return the following JSON format exactly.'',
        ''Return exactly:'',
        ''{'',
        ''  "results": ['',
        ''    { "id": mailID, "isPhishing": true/false, "confidence": confidenceScore, "reasons": ["short reason"] }'',
        ''  ]'',
        ''}'',
        ''In the reasons give a detailed explanation of either why you flagged it as a phishing email or why it is a legitimate email'',
        ''it is important to give a thorough explanation of how you came to your conclusion.'',
        ''Some examples of phishing indicators are: credential theft, payment scams, spoofed brands/domains, urgency/threats, odd links/attachments,'',
        ''mismatched sender name vs address, typosquatting, requests to bypass official channels.''])\<close>

text \<open>The callback of \<^verbatim>\<open>emails.map\<close>, lines 123 to 129.\<close>

definition compact_email :: "jsval \<Rightarrow> jsval" where
  "compact_email e =
     JObj [(lit ''id'', get_prop e (lit ''id'')),
           (lit ''sender'', nullish_or (get_prop e (lit ''sender'')) (JStr [])),
           (lit ''senderEmail'', nullish_or (get_prop e (lit ''senderEmail'')) (JStr [])),
           (lit ''subject'', nullish_or (get_prop e (lit ''subject'')) (JStr [])),
           (lit ''body'', nullish_or (get_prop e (lit ''snippet'')) (JStr []))]"

text \<open>The argument of the classification call, lines 131 to 139.\<close>

definition classify_request :: "js_builtins \<Rightarrow> jsval list \<Rightarrow> jsval" where
  "classify_request B emails =
     generate_request
       [user_turn SYSTEM_INSTRUCTIONS,
        user_turn (JSON_stringify B (JObj [(lit ''emails'', JArr (map compact_email emails))]))]"

text \<open>The \<^verbatim>\<open>catch\<close> of the route, lines 167 to 170.\<close>

fun server_error :: "exn \<Rightarrow> response" where
  "server_error (Thrown d) =
     \<lparr>status = 500,
      body = JObj [(lit ''error'', JStr (lit ''Server error'')), (lit ''details'', JStr d)]\<rparr>"

text \<open>The elements of a value known to be an array.\<close>

fun array_items :: "jsval \<Rightarrow> jsval list" where
  "array_items (JArr xs) = xs"
| "array_items v = []"

text \<open>
  What the route does with the text of the model's answer, lines 141 to 166. An
  exception of the normalisation reaches the \<^verbatim>\<open>catch\<close> of the route.
\<close>

definition relay_answer :: "js_builtins \<Rightarrow> jsstring \<Rightarrow> response" where
  "relay_answer B txt =
     (case JSON_parse B txt of
        None \<Rightarrow>
          \<lparr>status = 502,
           body = JObj [(lit ''error'', JStr (lit ''Model returned non-JSON'')),
                        (lit ''raw'', JStr (take 1000 txt))]\<rparr>
      | Some parsed \<Rightarrow>
          if \<not> to_boolean parsed \<or> \<not> is_array (get_prop parsed (lit ''results'')) then
            \<lparr>status = 502,
             body = JObj [(lit ''error'', JStr (lit ''Malformed JSON from model'')),
                          (lit ''parsed'', parsed)]\<rparr>
          else
            (case sequence_sum
                    (map (normalize_result B) (array_items (get_prop parsed (lit ''results'')))) of
               Inl e \<Rightarrow> server_error e
             | Inr rs \<Rightarrow> \<lparr>status = 200, body = set_prop parsed (lit ''results'') (JArr rs)\<rparr>))"

text \<open>\<^verbatim>\<open>POST /api/phishing\<close>, lines 115 to 171, on the request body \<^verbatim>\<open>req.body\<close>.\<close>

definition post_api_phishing ::
  "js_builtins \<Rightarrow> world \<Rightarrow> server_state \<Rightarrow> jsval \<Rightarrow> response \<times> server_state" where
  "post_api_phishing B W s req_body =
     (if \<not> truthy (apiKey s) then (error_response 503 ''GOOGLE_API_KEY not set on server'', s)
      else case model s of
        None \<Rightarrow> (error_response 503 ''Model not initialized yet. Try again in a moment.'', s)
      | Some m \<Rightarrow>
          (case get_prop (if to_boolean req_body then req_body else JObj []) (lit ''emails'') of
             JArr emails \<Rightarrow>
               (case generateContent W s m (classify_request B emails) of
                  (Inl e, s') \<Rightarrow> (server_error e, s')
                | (Inr txt, s') \<Rightarrow> (relay_answer B txt, s'))
           | other \<Rightarrow> (error_response 400 ''Expected { emails: [...] }'', s)))"

section \<open>The process as a sequence of steps\<close>

text \<open>
  \<^verbatim>\<open>initModel\<close> runs once, from the callback of \<^verbatim>\<open>app.listen\<close>, and gives the
  event loop a turn at each probe it awaits, so requests are served between its probes.
  The position of \<^verbatim>\<open>initModel\<close>: not yet called, about to try the candidates that
  are left, or returned.
\<close>

datatype init_pc = NotStarted | Candidates "jsstring list" | Finished

record process =
  srv :: server_state
  init :: init_pc

text \<open>
  One step of \<^verbatim>\<open>initModel\<close>: up to and including the answer of its next probe.
  While the probe is awaited \<^verbatim>\<open>model\<close> is still \<^verbatim>\<open>null\<close>, and a request served
  in between neither calls the model nor writes a variable, so the probe is one step.
\<close>

definition init_step :: "js_builtins \<Rightarrow> world \<Rightarrow> process \<Rightarrow> process" where
  "init_step B W p =
     (case init p of
        NotStarted \<Rightarrow>
          if \<not> genAI (srv p) then p\<lparr>init := Finished\<rparr>
          else (case or_null (MODEL_IN_USE (srv p)) of
                  Some requested \<Rightarrow>
                    (case tryModel B W (srv p) requested of
                       (Some m, s') \<Rightarrow> \<lparr>srv = s'\<lparr>model := Some m\<rparr>, init = Finished\<rparr>
                     | (None, s') \<Rightarrow> \<lparr>srv = s', init = Candidates CANDIDATE_MODELS\<rparr>)
                | None \<Rightarrow> p\<lparr>init := Candidates CANDIDATE_MODELS\<rparr>)
      | Candidates [] \<Rightarrow> p\<lparr>init := Finished\<rparr>
      | Candidates (candidate # rest) \<Rightarrow>
          (case tryModel B W (srv p) candidate of
             (Some m, s') \<Rightarrow>
               \<lparr>srv = s'\<lparr>MODEL_IN_USE := Some candidate, model := Some m\<rparr>, init = Finished\<rparr>
           | (None, s') \<Rightarrow> \<lparr>srv = s', init = Candidates rest\<rparr>)
      | Finished \<Rightarrow> p)"

text \<open>
  What can happen in the process: a step of \<^verbatim>\<open>initModel\<close>, or a request on one of
  the four routes. \<^verbatim>\<open>GET /health\<close> and \<^verbatim>\<open>GET /api/models-rest\<close> (lines 12 to 28)
  read and write none of the module's variables and make no \<^verbatim>\<open>generateContent\<close>
  call, so they leave the state as it is; their responses are not modelled.
\<close>

datatype event =
    InitStep
  | PostPhishing jsval
  | GetPingGen
  | GetHealth
  | GetModelsRest

fun step :: "js_builtins \<Rightarrow> world \<Rightarrow> process \<Rightarrow> event \<Rightarrow> process" where
  "step B W p InitStep = init_step B W p"
| "step B W p (PostPhishing req_body) = p\<lparr>srv := snd (post_api_phishing B W (srv p) req_body)\<rparr>"
| "step B W p GetPingGen = p\<lparr>srv := snd (get_api_ping_gen W (srv p))\<rparr>"
| "step B W p GetHealth = p"
| "step B W p GetModelsRest = p"

definition run :: "js_builtins \<Rightarrow> world \<Rightarrow> process \<Rightarrow> event list \<Rightarrow> process" where
  "run B W p es = foldl (step B W) p es"


section \<open>Tables for the examples\<close>

text \<open>
  The examples below need the built-ins on a handful of inputs only. Each table
  agrees with JavaScript on the inputs it lists; the examples use no other input.
\<close>

definition spec_example_answer :: jsval where
  "spec_example_answer =
     JObj [(lit ''results'',
        JArr [JObj [(lit ''id'', JNum (Fin 1)),
                    (lit ''isPhishing'', JBool True),
                    (lit ''confidence'', JNum (Fin 2)),
                    (lit ''reasons'',
                       JArr (map (\<lambda>c. JStr (lit [c])) ''abcdefghi''))]])]"

definition extra_field_answer :: jsval where
  "extra_field_answer =
     JObj [(lit ''model'', JStr (lit ''x'')),
           (lit ''results'',
              JArr [JObj [(lit ''id'', JNum (Fin 7)),
                          (lit ''isPhishing'', JBool True),
                          (lit ''confidence'', JNum (Fin 2)),
                          (lit ''reasons'', JArr [JStr (lit ''a'')])],
                    JNull])]"

definition example_parse :: "jsstring \<Rightarrow> jsval option" where
  \<open>example_parse txt =
     (if txt = lit ''{"ok":true}'' then Some (JObj [(lit ''ok'', JBool True)])
      else if txt = lit ''{"ok":false}'' then Some (JObj [(lit ''ok'', JBool False)])
      else if txt = lit ''{"foo":1}'' then Some (JObj [(lit ''foo'', JNum (Fin 1))])
      else if txt = lit ''{"model":"x","results":[{"id":7,"isPhishing":true,"confidence":2,"reasons":["a"]},null]}''
        then Some extra_field_answer
      else if txt = lit ''{"results":[{"id":1,"isPhishing":true,"confidence":2,"reasons":["a","b","c","d","e","f","g","h","i"]}]}''
        then Some spec_example_answer
      else None)\<close>

definition example_stringify :: "jsval \<Rightarrow> jsstring" where
  \<open>example_stringify v =
     (if v = JObj [(lit ''emails'', JArr [])] then lit ''{"emails":[]}'' else [])\<close>

definition example_builtins :: js_builtins where
  "example_builtins =
     \<lparr>JSON_parse = example_parse,
      JSON_stringify = example_stringify,
      StringToNumber = (\<lambda>s. if s = [] then Fin 0 else NaN),
      NumberToString = (\<lambda>x. if x = Fin 1 then lit ''1'' else lit ''NaN'')\<rparr>"

text \<open>A world that answers every call with the same text, and one that throws.\<close>

definition always_answers :: "string \<Rightarrow> world" where
  "always_answers t = (\<lambda>k c. Inr (lit t))"

definition never_answers :: world where
  "never_answers = (\<lambda>k c. Inl (Thrown (lit ''fetch failed'')))"

text \<open>
  A world in which exactly the model \<^verbatim>\<open>gemini-1.5-flash\<close>, the second candidate,
  passes the probe.
\<close>

definition only_flash :: world where
  \<open>only_flash =
     (\<lambda>k c. if call_model c = GenerativeModel (lit ''gemini-1.5-flash'')
             then Inr (lit ''{"ok":true}'') else Inr (lit ''{"ok":false}''))\<close>

definition bound_state :: server_state where
  "bound_state =
     \<lparr>apiKey = Some (lit ''key''),
      MODEL_IN_USE = Some (lit ''gemini-pro''),
      model = Some (GenerativeModel (lit ''gemini-pro'')),
      calls = []\<rparr>"

section \<open>Literals\<close>

lemma unat_lit: "map unat (lit s) = map of_char s"
proof -
  have "unat (of_nat (of_char c) :: 16 word) = of_char c" for c :: char
  proof -
    have "(of_char c :: nat) < 256" by simp
    then have "(of_char c :: nat) < 2 ^ 16" by (rule less_trans) simp
    then have "take_bit 16 (of_char c :: nat) = of_char c" by (rule take_bit_nat_eq_self)
    then show ?thesis by (simp add: unsigned_of_nat)
  qed
  then show ?thesis by (simp add: lit_def)
qed

lemma lit_eq_iff [simp]: "lit a = lit b \<longleftrightarrow> a = b"
proof
  assume "lit a = lit b"
  then have "map unat (lit a) = map unat (lit b)" by simp
  then have "map (of_char :: char \<Rightarrow> nat) a = map of_char b" by (simp only: unat_lit)
  then show "a = b" using inj_of_char by (metis inj_map_eq_map)
qed simp

lemma lit_Nil [simp]: "lit [] = []" "lit s = [] \<longleftrightarrow> s = []" "[] = lit s \<longleftrightarrow> s = []"
  by (auto simp: lit_def)

lemma length_lit [simp]: "length (lit s) = length s"
  by (simp add: lit_def)

section \<open>Confidence\<close>

lemma clamp_finite: "math_max (Fin 0) (math_min (Fin 1) (Fin x)) = Fin (min 1 (max 0 x))"
  by (simp add: min_def max_def)

lemma spec_confidence_JNum:
  "spec_confidence (JNum x) =
     (if is_finite x then math_max (Fin 0) (math_min (Fin 1) x) else Fin 0)"
  by (cases x) (simp_all add: clamp_finite)

text \<open>
  C1, as the code has it: the input is first coerced by \<^verbatim>\<open>Number\<close>. Whenever the
  coercion yields a number \<open>x\<close>, the normalized confidence is 0 if \<open>x\<close> is not finite
  and \<open>min(1, max(0, x))\<close> otherwise; so the rule of the specification holds of the
  coerced input, and of the input itself when that is a number.
\<close>

theorem clamp01_coerced:
  "(to_number B n = Inr x \<longrightarrow> clamp01 B n = Inr (spec_confidence (JNum x)))
   \<and> clamp01 B (JNum y) = Inr (spec_confidence (JNum y))
   \<and> clamp01 B JUndefined = Inr (Fin 0)"
  by (simp add: clamp01_def spec_confidence_JNum)

theorem clamp01_coerced_witness:
  "to_number example_builtins (JBool True) = Inr (Fin 1)
   \<and> clamp01 example_builtins (JBool True) = Inr (Fin 1)
   \<and> clamp01 example_builtins (JNum (Fin 2)) = Inr (Fin 1)
   \<and> clamp01 example_builtins (JNum (Fin (- 3))) = Inr (Fin 0)
   \<and> clamp01 example_builtins (JNum (Fin (1 / 2))) = Inr (Fin (1 / 2))
   \<and> clamp01 example_builtins (JNum PosInf) = Inr (Fin 0)"
  using clamp01_coerced [of example_builtins "JBool True" "Fin 1" "Fin 2"]
        clamp01_coerced [of example_builtins "JBool True" "Fin 1" "Fin (- 3)"]
        clamp01_coerced [of example_builtins "JBool True" "Fin 1" "Fin (1 / 2)"]
        clamp01_coerced [of example_builtins "JBool True" "Fin 1" PosInf]
  by simp

text \<open>
  C1 as stated fails on an input that is not a number but coerces to one: \<^verbatim>\<open>true\<close>
  is not a finite number, \<^verbatim>\<open>Number(true)\<close> is 1, and the normalized confidence is 1,
  not 0.
\<close>

theorem clamp01_boolean_counterexample:
  "clamp01 example_builtins (JBool True) = Inr (Fin 1)
   \<and> Inr (spec_confidence (JBool True)) \<noteq> clamp01 example_builtins (JBool True)"
  by (simp add: clamp01_def)

section \<open>Reasons\<close>

lemma normalize_result_reasons:
  assumes "normalize_result B r = Inr e"
  shows "get_prop e (lit ''reasons'') = normalize_reasons (get_prop r (lit ''reasons''))"
  using assms by (auto simp: normalize_result_def split: sum.splits)

text \<open>
  C4: a \<^verbatim>\<open>reasons\<close> input that is not an array is normalized to the empty array; an
  array of more than 8 elements to its first 8 elements, in their order; any other
  array to itself. The \<^verbatim>\<open>reasons\<close> field of a normalized element is that value.
\<close>

theorem normalize_reasons_cases:
  "(\<not> is_array v \<longrightarrow> normalize_reasons v = JArr [])
   \<and> (8 < length xs \<longrightarrow>
         normalize_reasons (JArr xs) = JArr (take 8 xs) \<and> length (take 8 xs) = 8
         \<and> (\<forall>i<8. take 8 xs ! i = xs ! i))
   \<and> (length xs \<le> 8 \<longrightarrow> normalize_reasons (JArr xs) = JArr xs)
   \<and> (normalize_result B r = Inr e \<longrightarrow>
         get_prop e (lit ''reasons'') = normalize_reasons (get_prop r (lit ''reasons'')))"
proof (intro conjI impI)
  assume "\<not> is_array v"
  then show "normalize_reasons v = JArr []" by (cases v) simp_all
next
  assume "8 < length xs"
  then show "length (take 8 xs) = 8" by simp
next
  assume "normalize_result B r = Inr e"
  then show "get_prop e (lit ''reasons'') = normalize_reasons (get_prop r (lit ''reasons''))"
    by (rule normalize_result_reasons)
qed simp_all

theorem normalize_reasons_cases_witness:
  "normalize_reasons (JStr (lit ''urgent'')) = JArr []
   \<and> normalize_reasons (JArr (map JBool [True, False, True, False, True, False, True, False, True]))
       = JArr (map JBool [True, False, True, False, True, False, True, False])
   \<and> normalize_reasons (JArr [JNull]) = JArr [JNull]
   \<and> get_prop (JObj [(lit ''id'', JUndefined),
                      (lit ''isPhishing'', JBool False),
                      (lit ''confidence'', JNum (Fin 0)),
                      (lit ''reasons'', JArr [])]) (lit ''reasons'')
       = normalize_reasons (get_prop JNull (lit ''reasons''))"
proof -
  let ?e = "JObj [(lit ''id'', JUndefined),
                  (lit ''isPhishing'', JBool False),
                  (lit ''confidence'', JNum (Fin 0)),
                  (lit ''reasons'', JArr [])]"
  let ?nine = "map JBool [True, False, True, False, True, False, True, False, True]"
  note long = normalize_reasons_cases [of "JStr (lit ''urgent'')" ?nine example_builtins JNull ?e]
  note short = normalize_reasons_cases [of JNull "[JNull]" example_builtins JNull ?e]
  have e: "normalize_result example_builtins JNull = Inr ?e"
    by (simp add: normalize_result_def clamp01_def)
  have 1: "normalize_reasons (JStr (lit ''urgent'')) = JArr []"
    using long [THEN conjunct1] by simp
  have 2: "normalize_reasons (JArr ?nine) = JArr (take 8 ?nine)"
    using long [THEN conjunct2, THEN conjunct1] by simp
  have 3: "normalize_reasons (JArr [JNull]) = JArr [JNull]"
    using short [THEN conjunct2, THEN conjunct2, THEN conjunct1] by simp
  have 4: "get_prop ?e (lit ''reasons'') = normalize_reasons (get_prop JNull (lit ''reasons''))"
    using long [THEN conjunct2, THEN conjunct2, THEN conjunct2] e by (rule mp)
  from 1 2 3 4 show ?thesis by simp
qed

section \<open>The classification route\<close>

lemma get_prop_body_or_empty:
  "get_prop (if to_boolean b then b else JObj []) k = get_prop b k"
  by (cases b) simp_all

lemma post_api_phishing_unavailable:
  assumes "\<not> truthy (apiKey s) \<or> model s = None"
  shows "status (fst (post_api_phishing B W s b)) = 503 \<and> snd (post_api_phishing B W s b) = s"
  using assms by (auto simp: post_api_phishing_def error_response_def)

lemma post_api_phishing_relayed:
  assumes "truthy (apiKey s)" and "model s = Some m"
    and "get_prop b (lit ''emails'') = JArr emails"
    and "W (length (calls s)) \<lparr>call_model = m, call_request = classify_request B emails\<rparr> = Inr answer"
  shows "post_api_phishing B W s b =
           (relay_answer B answer,
            s\<lparr>calls := calls s @ [\<lparr>call_model = m, call_request = classify_request B emails\<rparr>]\<rparr>)"
  using assms
  by (simp add: post_api_phishing_def get_prop_body_or_empty generateContent_def Let_def)

text \<open>
  C3: with the credential set, a model bound and a well-formed request, an answer of
  the model that does not parse as JSON gives status 502, with \<^verbatim>\<open>raw\<close> the first 1000
  code units of that answer; the route returns this response and raises nothing.
\<close>

theorem non_json_answer_502:
  assumes "truthy (apiKey s)" and "model s = Some m"
    and "get_prop b (lit ''emails'') = JArr emails"
    and "W (length (calls s)) \<lparr>call_model = m, call_request = classify_request B emails\<rparr> = Inr answer"
    and "JSON_parse B answer = None"
  shows "fst (post_api_phishing B W s b) =
           \<lparr>status = 502,
            body = JObj [(lit ''error'', JStr (lit ''Model returned non-JSON'')),
                         (lit ''raw'', JStr (take 1000 answer))]\<rparr>"
proof -
  have "post_api_phishing B W s b =
          (relay_answer B answer,
           s\<lparr>calls := calls s @ [\<lparr>call_model = m, call_request = classify_request B emails\<rparr>]\<rparr>)"
    using assms(1-4) by (rule post_api_phishing_relayed)
  with assms(5) show ?thesis by (simp add: relay_answer_def)
qed

text \<open>
  C5: with the credential set and a model bound, a request body without an
  \<^verbatim>\<open>emails\<close> field, or with one that is not an array, gives status 400 with an error
  message, and the state, and with it the log of external calls, is as before.
\<close>

theorem malformed_body_400:
  assumes "truthy (apiKey s)" and "model s = Some m"
    and "\<not> is_array (get_prop b (lit ''emails''))"
  shows "post_api_phishing B W s b =
           (\<lparr>status = 400, body = JObj [(lit ''error'', JStr (lit ''Expected { emails: [...] }''))]\<rparr>, s)
         \<and> calls (snd (post_api_phishing B W s b)) = calls s"
  using assms
  by (cases "get_prop b (lit ''emails'')")
     (simp_all add: post_api_phishing_def get_prop_body_or_empty error_response_def)

text \<open>
  C6: while no model is bound, every request on the route gives status 503, and the
  state is as before: no external call is logged, and nothing is kept of the request.
\<close>

theorem unbound_model_503:
  assumes "model s = None"
  shows "status (fst (post_api_phishing B W s b)) = 503
         \<and> snd (post_api_phishing B W s b) = s
         \<and> calls (snd (post_api_phishing B W s b)) = calls s"
  using assms post_api_phishing_unavailable [of s B W b] by simp

text \<open>
  C7: with the credential set, a model bound and a well-formed request, an answer that
  parses as JSON to a value without an array under \<^verbatim>\<open>results\<close> gives status 502, with
  the parsed value under \<^verbatim>\<open>parsed\<close>.
\<close>

theorem no_results_array_502:
  assumes "truthy (apiKey s)" and "model s = Some m"
    and "get_prop b (lit ''emails'') = JArr emails"
    and "W (length (calls s)) \<lparr>call_model = m, call_request = classify_request B emails\<rparr> = Inr answer"
    and "JSON_parse B answer = Some parsed"
    and "\<not> is_array (get_prop parsed (lit ''results''))"
  shows "fst (post_api_phishing B W s b) =
           \<lparr>status = 502,
            body = JObj [(lit ''error'', JStr (lit ''Malformed JSON from model'')),
                         (lit ''parsed'', parsed)]\<rparr>"
proof -
  have "post_api_phishing B W s b =
          (relay_answer B answer,
           s\<lparr>calls := calls s @ [\<lparr>call_model = m, call_request = classify_request B emails\<rparr>]\<rparr>)"
    using assms(1-4) by (rule post_api_phishing_relayed)
  with assms(5,6) show ?thesis by (simp add: relay_answer_def)
qed

text \<open>
  C9: the credential and the bound model are checked before the request body is looked
  at: without the credential, or without a bound model, the status is 503 whatever the
  body is, also for a body whose \<^verbatim>\<open>emails\<close> is missing or not an array, and no
  external call is made.
\<close>

theorem unavailable_before_body_check:
  assumes "\<not> truthy (apiKey s) \<or> model s = None"
  shows "status (fst (post_api_phishing B W s b)) = 503
         \<and> status (fst (post_api_phishing B W s b)) \<noteq> 400
         \<and> calls (snd (post_api_phishing B W s b)) = calls s"
  using post_api_phishing_unavailable [OF assms, of B W b] by simp

section \<open>The route on examples\<close>

lemma example_parse_long: "200 < length t \<Longrightarrow> example_parse t = None"
  by (auto simp: example_parse_def)

lemma bound_state_simps [simp]:
  "apiKey bound_state = Some (lit ''key'')"
  "MODEL_IN_USE bound_state = Some (lit ''gemini-pro'')"
  "model bound_state = Some (GenerativeModel (lit ''gemini-pro''))"
  "calls bound_state = []"
  by (simp_all add: bound_state_def)

theorem non_json_answer_502_witness:
  "JSON_parse example_builtins (lit ''not json'') = None
   \<and> fst (post_api_phishing example_builtins (always_answers ''not json'') bound_state
             (JObj [(lit ''emails'', JArr [])])) =
       \<lparr>status = 502,
        body = JObj [(lit ''error'', JStr (lit ''Model returned non-JSON'')),
                     (lit ''raw'', JStr (lit ''not json''))]\<rparr>
   \<and> JSON_parse example_builtins (replicate 1500 120) = None
   \<and> fst (post_api_phishing example_builtins (\<lambda>k c. Inr (replicate 1500 120)) bound_state
             (JObj [(lit ''emails'', JArr [])])) =
       \<lparr>status = 502,
        body = JObj [(lit ''error'', JStr (lit ''Model returned non-JSON'')),
                     (lit ''raw'', JStr (replicate 1000 120))]\<rparr>"
proof -
  let ?b = "JObj [(lit ''emails'', JArr [])]"
  let ?m = "GenerativeModel (lit ''gemini-pro'')"
  have key: "truthy (apiKey bound_state)" and m: "model bound_state = Some ?m"
    and b: "get_prop ?b (lit ''emails'') = JArr []"
    by simp_all
  have short: "JSON_parse example_builtins (lit ''not json'') = None"
    by (simp add: example_builtins_def example_parse_def)
  have long: "JSON_parse example_builtins (replicate 1500 120) = None"
    by (simp add: example_builtins_def example_parse_long)
  have w1: "always_answers ''not json'' (length (calls bound_state))
              \<lparr>call_model = ?m, call_request = classify_request example_builtins []\<rparr>
            = Inr (lit ''not json'')"
    by (simp add: always_answers_def)
  have w2: "(\<lambda>k c. Inr (replicate 1500 120)) (length (calls bound_state))
              \<lparr>call_model = ?m, call_request = classify_request example_builtins []\<rparr>
            = Inr (replicate 1500 120)"
    by simp
  show ?thesis
    using non_json_answer_502
            [where W = "always_answers ''not json''" and B = example_builtins
               and answer = "lit ''not json''", OF key m b w1 short]
          non_json_answer_502
            [where W = "\<lambda>k c. Inr (replicate 1500 120)" and B = example_builtins
               and answer = "replicate 1500 120", OF key m b w2 long]
          short long
    by simp
qed

theorem malformed_body_400_witness:
  "truthy (apiKey bound_state)
   \<and> status (fst (post_api_phishing example_builtins never_answers bound_state
                     (JObj [(lit ''emails'', JStr (lit ''not an array''))]))) = 400
   \<and> status (fst (post_api_phishing example_builtins never_answers bound_state (JObj []))) = 400
   \<and> calls (snd (post_api_phishing example_builtins never_answers bound_state (JObj []))) = []"
proof -
  let ?m = "GenerativeModel (lit ''gemini-pro'')"
  have key: "truthy (apiKey bound_state)" and m: "model bound_state = Some ?m"
    by simp_all
  have b1: "\<not> is_array (get_prop (JObj [(lit ''emails'', JStr (lit ''not an array''))]) (lit ''emails''))"
    and b2: "\<not> is_array (get_prop (JObj []) (lit ''emails''))"
    by simp_all
  show ?thesis
    using malformed_body_400 [OF key m b1, of example_builtins never_answers]
          malformed_body_400 [OF key m b2, of example_builtins never_answers] key
    by simp
qed

theorem unbound_model_503_witness:
  "model (initial_state (Some (lit ''key'')) None) = None
   \<and> status (fst (post_api_phishing example_builtins (always_answers ''not json'')
                     (initial_state (Some (lit ''key'')) None)
                     (JObj [(lit ''emails'', JArr [])]))) = 503
   \<and> calls (snd (post_api_phishing example_builtins (always_answers ''not json'')
                     (initial_state (Some (lit ''key'')) None)
                     (JObj [(lit ''emails'', JArr [])]))) = []"
proof -
  have m: "model (initial_state (Some (lit ''key'')) None) = None"
    by (simp add: initial_state_def)
  have c: "calls (initial_state (Some (lit ''key'')) None) = []"
    by (simp add: initial_state_def)
  show ?thesis
    using unbound_model_503 [OF m, of example_builtins "always_answers ''not json''"
            "JObj [(lit ''emails'', JArr [])]"] m c
    by simp
qed

theorem no_results_array_502_witness:
  \<open>JSON_parse example_builtins (lit ''{"foo":1}'') = Some (JObj [(lit ''foo'', JNum (Fin 1))])
   \<and> fst (post_api_phishing example_builtins (always_answers ''{"foo":1}'') bound_state
             (JObj [(lit ''emails'', JArr [])])) =
       \<lparr>status = 502,
        body = JObj [(lit ''error'', JStr (lit ''Malformed JSON from model'')),
                     (lit ''parsed'', JObj [(lit ''foo'', JNum (Fin 1))])]\<rparr>\<close>
proof -
  let ?b = "JObj [(lit ''emails'', JArr [])]"
  let ?m = "GenerativeModel (lit ''gemini-pro'')"
  let ?parsed = "JObj [(lit ''foo'', JNum (Fin 1))]"
  have key: "truthy (apiKey bound_state)" and m: "model bound_state = Some ?m"
    and b: "get_prop ?b (lit ''emails'') = JArr []"
    by simp_all
  have p: \<open>JSON_parse example_builtins (lit ''{"foo":1}'') = Some ?parsed\<close>
    by (simp add: example_builtins_def example_parse_def)
  have r: "\<not> is_array (get_prop ?parsed (lit ''results''))"
    by simp
  have w: \<open>always_answers ''{"foo":1}'' (length (calls bound_state))
              \<lparr>call_model = ?m, call_request = classify_request example_builtins []\<rparr>
            = Inr (lit ''{"foo":1}'')\<close>
    by (simp add: always_answers_def)
  show ?thesis
    using no_results_array_502
            [where W = \<open>always_answers ''{"foo":1}''\<close> and B = example_builtins
               and answer = \<open>lit ''{"foo":1}''\<close>, OF key m b w p r] p
    by simp
qed

theorem unavailable_before_body_check_witness:
  "model (initial_state (Some (lit ''key'')) None) = None
   \<and> status (fst (post_api_phishing example_builtins never_answers
                     (initial_state (Some (lit ''key'')) None)
                     (JObj [(lit ''emails'', JStr (lit ''not an array''))]))) = 503
   \<and> truthy (apiKey (bound_state\<lparr>apiKey := None\<rparr>)) = False
   \<and> status (fst (post_api_phishing example_builtins never_answers
                     (bound_state\<lparr>apiKey := None\<rparr>) JNull)) = 503"
proof -
  have m: "\<not> truthy (apiKey (initial_state (Some (lit ''key'')) None))
           \<or> model (initial_state (Some (lit ''key'')) None) = None"
    by (simp add: initial_state_def)
  have k: "\<not> truthy (apiKey (bound_state\<lparr>apiKey := None\<rparr>))
           \<or> model (bound_state\<lparr>apiKey := None\<rparr>) = None"
    by simp
  show ?thesis
    using unavailable_before_body_check [OF m, of example_builtins never_answers
            "JObj [(lit ''emails'', JStr (lit ''not an array''))]"]
          unavailable_before_body_check [OF k, of example_builtins never_answers JNull]
    by (simp add: initial_state_def)
qed

section \<open>What a successful response carries\<close>

lemma sequence_sum_map_Inr:
  "sequence_sum (map f xs) = Inr ys \<Longrightarrow> list_all2 (\<lambda>x y. f x = Inr y) xs ys"
proof (induction xs arbitrary: ys)
  case Nil
  then show ?case by simp
next
  case (Cons x xs)
  then show ?case by (auto split: sum.splits)
qed

lemma normalize_result_keys:
  assumes "normalize_result B r = Inr e"
  shows "obj_keys e = [lit ''id'', lit ''isPhishing'', lit ''confidence'', lit ''reasons'']"
  using assms by (auto simp: normalize_result_def split: sum.splits)

lemma normalized_results_keys:
  assumes "sequence_sum (map (normalize_result B) rs) = Inr rs'" and "e \<in> set rs'"
  shows "obj_keys e = [lit ''id'', lit ''isPhishing'', lit ''confidence'', lit ''reasons'']"
proof -
  have "list_all2 (\<lambda>r e. normalize_result B r = Inr e) rs rs'"
    using assms(1) by (rule sequence_sum_map_Inr)
  with assms(2) obtain r where "normalize_result B r = Inr e"
    by (auto simp: list_all2_conv_all_nth in_set_conv_nth)
  then show ?thesis by (rule normalize_result_keys)
qed

lemma is_array_get_prop:
  assumes "is_array (get_prop v k)"
  obtains kvs xs where "v = JObj kvs" and "map_of kvs k = Some (JArr xs)"
proof (cases v)
  case (JObj kvs)
  with assms obtain xs where "map_of kvs k = Some (JArr xs)"
    by (cases "map_of kvs k"; cases "get_prop v k") auto
  with JObj that show ?thesis by blast
qed (use assms in simp_all)

lemma set_prop_existing:
  assumes "map_of kvs k = Some old"
  shows "obj_keys (set_prop (JObj kvs) k v) = obj_keys (JObj kvs)"
    and "get_prop (set_prop (JObj kvs) k v) k = v"
    and "k' \<noteq> k \<Longrightarrow> get_prop (set_prop (JObj kvs) k v) k' = get_prop (JObj kvs) k'"
proof -
  from assms have "k \<in> set (map fst kvs)"
    by (metis map_of_eq_None_iff option.distinct(1) set_map)
  then show "obj_keys (set_prop (JObj kvs) k v) = obj_keys (JObj kvs)"
    by (simp add: update_keys)
  show "get_prop (set_prop (JObj kvs) k v) k = v"
    by (simp add: update_conv')
  show "k' \<noteq> k \<Longrightarrow> get_prop (set_prop (JObj kvs) k v) k' = get_prop (JObj kvs) k'"
    by (simp add: update_conv')
qed

lemma relay_answer_success:
  assumes "JSON_parse B answer = Some parsed" and "status (relay_answer B answer) = 200"
  obtains rs' where
    "is_array (get_prop parsed (lit ''results''))"
    "sequence_sum (map (normalize_result B) (array_items (get_prop parsed (lit ''results'')))) = Inr rs'"
    "body (relay_answer B answer) = set_prop parsed (lit ''results'') (JArr rs')"
proof -
  from assms have arr: "is_array (get_prop parsed (lit ''results''))"
    by (auto simp: relay_answer_def split: if_splits)
  show ?thesis
  proof (cases "sequence_sum (map (normalize_result B) (array_items (get_prop parsed (lit ''results''))))")
    case (Inl e)
    with assms arr have False
      by (cases e) (auto simp: relay_answer_def split: if_splits)
    then show ?thesis ..
  next
    case (Inr rs')
    with assms arr have "body (relay_answer B answer) = set_prop parsed (lit ''results'') (JArr rs')"
      by (auto simp: relay_answer_def split: if_splits)
    with arr Inr that show ?thesis by blast
  qed
qed

lemma normalize_reasons_case:
  "normalize_reasons v = (case v of JArr xs \<Rightarrow> JArr (take 8 xs) | _ \<Rightarrow> JArr [])"
  by (cases v) simp_all

lemma normalize_result_fields:
  assumes "normalize_result B r = Inr e"
  shows "\<exists>x. to_number B (get_prop r (lit ''confidence'')) = Inr x
             \<and> e = JObj [(lit ''id'', get_prop r (lit ''id'')),
                         (lit ''isPhishing'', JBool (to_boolean (get_prop r (lit ''isPhishing'')))),
                         (lit ''confidence'', JNum (spec_confidence (JNum x))),
                         (lit ''reasons'',
                            case get_prop r (lit ''reasons'') of
                              JArr xs \<Rightarrow> JArr (take 8 xs) | _ \<Rightarrow> JArr [])]"
proof (cases "to_number B (get_prop r (lit ''confidence''))")
  case (Inl err)
  with assms show ?thesis by (simp add: normalize_result_def clamp01_def)
next
  case (Inr x)
  then have "clamp01 B (get_prop r (lit ''confidence'')) = Inr (spec_confidence (JNum x))"
    by (simp add: clamp01_def spec_confidence_JNum)
  with assms Inr show ?thesis
    by (auto simp: normalize_result_def normalize_reasons_case)
qed

text \<open>
  C10: on a successful response (status 200) the parsed answer is an object with an
  array \<open>rs\<close> under \<^verbatim>\<open>results\<close>. The body has the own properties of the parsed
  answer, in the same order; every property other than \<^verbatim>\<open>results\<close> has the value it
  had in the parsed answer; \<^verbatim>\<open>results\<close> holds one element for each element \<open>r\<close> of
  \<open>rs\<close>, in the same order, and that element is the object of exactly the four
  properties \<^verbatim>\<open>id\<close> (the \<^verbatim>\<open>id\<close> of \<open>r\<close>), \<^verbatim>\<open>isPhishing\<close> (the truthiness of
  its \<^verbatim>\<open>isPhishing\<close>), \<^verbatim>\<open>confidence\<close> (its coerced \<^verbatim>\<open>confidence\<close>, clamped)
  and \<^verbatim>\<open>reasons\<close> (the first 8 of its \<^verbatim>\<open>reasons\<close> if that is an array, the empty
  array otherwise).
\<close>

theorem success_replaces_results_only:
  assumes "truthy (apiKey s)" and "model s = Some m"
    and "get_prop b (lit ''emails'') = JArr emails"
    and "W (length (calls s)) \<lparr>call_model = m, call_request = classify_request B emails\<rparr> = Inr answer"
    and "JSON_parse B answer = Some parsed"
    and "status (fst (post_api_phishing B W s b)) = 200"
  shows "obj_keys (body (fst (post_api_phishing B W s b))) = obj_keys parsed
         \<and> (\<forall>k. k \<noteq> lit ''results'' \<longrightarrow>
               get_prop (body (fst (post_api_phishing B W s b))) k = get_prop parsed k)
         \<and> (\<exists>rs rs'.
               get_prop parsed (lit ''results'') = JArr rs
               \<and> get_prop (body (fst (post_api_phishing B W s b))) (lit ''results'') = JArr rs'
               \<and> length rs' = length rs
               \<and> list_all2
                   (\<lambda>r e. \<exists>x. to_number B (get_prop r (lit ''confidence'')) = Inr x
                      \<and> e = JObj [(lit ''id'', get_prop r (lit ''id'')),
                                  (lit ''isPhishing'',
                                     JBool (to_boolean (get_prop r (lit ''isPhishing'')))),
                                  (lit ''confidence'', JNum (spec_confidence (JNum x))),
                                  (lit ''reasons'',
                                     case get_prop r (lit ''reasons'') of
                                       JArr xs \<Rightarrow> JArr (take 8 xs) | _ \<Rightarrow> JArr [])])
                   rs rs'
               \<and> (\<forall>e \<in> set rs'. obj_keys e =
                     [lit ''id'', lit ''isPhishing'', lit ''confidence'', lit ''reasons'']))"
proof -
  have post: "fst (post_api_phishing B W s b) = relay_answer B answer"
    using post_api_phishing_relayed [where W = W, OF assms(1-4)] by simp
  with assms(6) have ok: "status (relay_answer B answer) = 200" by simp
  from assms(5) ok obtain rs' where
    arr: "is_array (get_prop parsed (lit ''results''))"
    and seq: "sequence_sum (map (normalize_result B)
                (array_items (get_prop parsed (lit ''results'')))) = Inr rs'"
    and bdy: "body (relay_answer B answer) = set_prop parsed (lit ''results'') (JArr rs')"
    by (rule relay_answer_success)
  from arr obtain kvs rs where
    parsed: "parsed = JObj kvs" and rs: "map_of kvs (lit ''results'') = Some (JArr rs)"
    by (rule is_array_get_prop)
  have src: "get_prop parsed (lit ''results'') = JArr rs"
    using parsed rs by simp
  have each: "list_all2 (\<lambda>r e. normalize_result B r = Inr e) rs rs'"
    using sequence_sum_map_Inr [OF seq] src by simp
  then have len: "length rs' = length rs"
    by (simp add: list_all2_lengthD)
  have fields: "list_all2
      (\<lambda>r e. \<exists>x. to_number B (get_prop r (lit ''confidence'')) = Inr x
         \<and> e = JObj [(lit ''id'', get_prop r (lit ''id'')),
                     (lit ''isPhishing'', JBool (to_boolean (get_prop r (lit ''isPhishing'')))),
                     (lit ''confidence'', JNum (spec_confidence (JNum x))),
                     (lit ''reasons'',
                        case get_prop r (lit ''reasons'') of
                          JArr xs \<Rightarrow> JArr (take 8 xs) | _ \<Rightarrow> JArr [])])
      rs rs'"
    using each by (rule list_all2_mono) (rule normalize_result_fields)
  have keys: "\<forall>e \<in> set rs'. obj_keys e =
                [lit ''id'', lit ''isPhishing'', lit ''confidence'', lit ''reasons'']"
    using normalized_results_keys [OF seq] by blast
  have 1: "obj_keys (body (fst (post_api_phishing B W s b))) = obj_keys parsed"
    unfolding post bdy parsed by (rule set_prop_existing(1) [OF rs])
  have 2: "\<forall>k. k \<noteq> lit ''results'' \<longrightarrow>
             get_prop (body (fst (post_api_phishing B W s b))) k = get_prop parsed k"
    unfolding post bdy parsed using set_prop_existing(3) [OF rs] by blast
  have 3: "get_prop (body (fst (post_api_phishing B W s b))) (lit ''results'') = JArr rs'"
    unfolding post bdy parsed by (rule set_prop_existing(2) [OF rs])
  from src 3 len fields keys have "\<exists>rs rs'.
        get_prop parsed (lit ''results'') = JArr rs
        \<and> get_prop (body (fst (post_api_phishing B W s b))) (lit ''results'') = JArr rs'
        \<and> length rs' = length rs
        \<and> list_all2
            (\<lambda>r e. \<exists>x. to_number B (get_prop r (lit ''confidence'')) = Inr x
               \<and> e = JObj [(lit ''id'', get_prop r (lit ''id'')),
                           (lit ''isPhishing'',
                              JBool (to_boolean (get_prop r (lit ''isPhishing'')))),
                           (lit ''confidence'', JNum (spec_confidence (JNum x))),
                           (lit ''reasons'',
                              case get_prop r (lit ''reasons'') of
                                JArr xs \<Rightarrow> JArr (take 8 xs) | _ \<Rightarrow> JArr [])])
            rs rs'
        \<and> (\<forall>e \<in> set rs'. obj_keys e =
              [lit ''id'', lit ''isPhishing'', lit ''confidence'', lit ''reasons''])"
    by blast
  with 1 2 show ?thesis by (intro conjI)
qed

theorem success_replaces_results_only_witness:
  \<open>status (fst (post_api_phishing example_builtins
       (always_answers ''{"model":"x","results":[{"id":7,"isPhishing":true,"confidence":2,"reasons":["a"]},null]}'')
       bound_state (JObj [(lit ''emails'', JArr [])]))) = 200
   \<and> obj_keys (body (fst (post_api_phishing example_builtins
       (always_answers ''{"model":"x","results":[{"id":7,"isPhishing":true,"confidence":2,"reasons":["a"]},null]}'')
       bound_state (JObj [(lit ''emails'', JArr [])])))) = [lit ''model'', lit ''results'']
   \<and> get_prop (body (fst (post_api_phishing example_builtins
       (always_answers ''{"model":"x","results":[{"id":7,"isPhishing":true,"confidence":2,"reasons":["a"]},null]}'')
       bound_state (JObj [(lit ''emails'', JArr [])])))) (lit ''model'') = JStr (lit ''x'')
   \<and> get_prop (body (fst (post_api_phishing example_builtins
       (always_answers ''{"model":"x","results":[{"id":7,"isPhishing":true,"confidence":2,"reasons":["a"]},null]}'')
       bound_state (JObj [(lit ''emails'', JArr [])])))) (lit ''results'')
       = JArr [JObj [(lit ''id'', JNum (Fin 7)),
                     (lit ''isPhishing'', JBool True),
                     (lit ''confidence'', JNum (Fin 1)),
                     (lit ''reasons'', JArr [JStr (lit ''a'')])],
               JObj [(lit ''id'', JUndefined),
                     (lit ''isPhishing'', JBool False),
                     (lit ''confidence'', JNum (Fin 0)),
                     (lit ''reasons'', JArr [])]]\<close>
proof -
  let ?b = "JObj [(lit ''emails'', JArr [])]"
  let ?m = "GenerativeModel (lit ''gemini-pro'')"
  let ?t = \<open>''{"model":"x","results":[{"id":7,"isPhishing":true,"confidence":2,"reasons":["a"]},null]}''\<close>
  let ?W = "always_answers ?t"
  let ?body = "body (fst (post_api_phishing example_builtins ?W bound_state ?b))"
  have key: "truthy (apiKey bound_state)" and m: "model bound_state = Some ?m"
    and b: "get_prop ?b (lit ''emails'') = JArr []"
    by simp_all
  have p: "JSON_parse example_builtins (lit ?t) = Some extra_field_answer"
    by (simp add: example_builtins_def example_parse_def)
  have w: "?W (length (calls bound_state))
              \<lparr>call_model = ?m, call_request = classify_request example_builtins []\<rparr>
            = Inr (lit ?t)"
    by (simp add: always_answers_def)
  have post: "fst (post_api_phishing example_builtins ?W bound_state ?b)
                = relay_answer example_builtins (lit ?t)"
    using post_api_phishing_relayed [where W = ?W, OF key m b w] by simp
  have ok: "status (fst (post_api_phishing example_builtins ?W bound_state ?b)) = 200"
    unfolding post using p
    by (simp add: relay_answer_def extra_field_answer_def normalize_result_def clamp01_def)
  note inst = success_replaces_results_only [where W = ?W, OF key m b w p ok]
  have keys: "obj_keys ?body = [lit ''model'', lit ''results'']"
    using inst [THEN conjunct1] by (simp add: extra_field_answer_def)
  have other: "get_prop ?body (lit ''model'') = JStr (lit ''x'')"
    using inst [THEN conjunct2, THEN conjunct1] by (simp add: extra_field_answer_def)
  from inst [THEN conjunct2, THEN conjunct2] obtain rs rs' where
    src: "get_prop extra_field_answer (lit ''results'') = JArr rs"
    and res: "get_prop ?body (lit ''results'') = JArr rs'"
    and each: "list_all2
      (\<lambda>r e. \<exists>x. to_number example_builtins (get_prop r (lit ''confidence'')) = Inr x
         \<and> e = JObj [(lit ''id'', get_prop r (lit ''id'')),
                     (lit ''isPhishing'', JBool (to_boolean (get_prop r (lit ''isPhishing'')))),
                     (lit ''confidence'', JNum (spec_confidence (JNum x))),
                     (lit ''reasons'',
                        case get_prop r (lit ''reasons'') of
                          JArr xs \<Rightarrow> JArr (take 8 xs) | _ \<Rightarrow> JArr [])])
      rs rs'"
    by blast
  from src have rs: "rs = [JObj [(lit ''id'', JNum (Fin 7)),
                                 (lit ''isPhishing'', JBool True),
                                 (lit ''confidence'', JNum (Fin 2)),
                                 (lit ''reasons'', JArr [JStr (lit ''a'')])],
                           JNull]"
    by (simp add: extra_field_answer_def)
  from each have "rs' = [JObj [(lit ''id'', JNum (Fin 7)),
                               (lit ''isPhishing'', JBool True),
                               (lit ''confidence'', JNum (Fin 1)),
                               (lit ''reasons'', JArr [JStr (lit ''a'')])],
                         JObj [(lit ''id'', JUndefined),
                               (lit ''isPhishing'', JBool False),
                               (lit ''confidence'', JNum (Fin 0)),
                               (lit ''reasons'', JArr [])]]"
    unfolding rs by (auto simp: list_all2_Cons1)
  with res keys other ok show ?thesis by simp
qed

section \<open>Model resolution\<close>

lemma tryModel_eq:
  "tryModel B W s name =
     (if probe_passes B (W (length (calls s)) (probe_call name))
      then Some (GenerativeModel name) else None,
      s\<lparr>calls := calls s @ [probe_call name]\<rparr>)"
  by (simp add: tryModel_def generateContent_def probe_passes_def probe_call_def Let_def
           split: sum.splits option.splits)

lemma try_candidates_first_success:
  assumes "i < length cs"
    and "\<forall>j<i. \<not> probe_passes B (W (length (calls s) + j) (probe_call (cs ! j)))"
    and "probe_passes B (W (length (calls s) + i) (probe_call (cs ! i)))"
  shows "try_candidates B W s cs =
           s\<lparr>calls := calls s @ map probe_call (take (Suc i) cs),
             MODEL_IN_USE := Some (cs ! i),
             model := Some (GenerativeModel (cs ! i))\<rparr>"
  using assms
proof (induction cs arbitrary: s i)
  case Nil
  then show ?case by simp
next
  case (Cons c cs)
  show ?case
  proof (cases i)
    case 0
    with Cons.prems show ?thesis by (simp add: tryModel_eq)
  next
    case (Suc k)
    let ?s = "s\<lparr>calls := calls s @ [probe_call c]\<rparr>"
    from Cons.prems(2) Suc have first: "\<not> probe_passes B (W (length (calls s)) (probe_call c))"
      by force
    have k: "k < length cs" using Cons.prems(1) Suc by simp
    have fails: "\<forall>j<k. \<not> probe_passes B (W (length (calls ?s) + j) (probe_call (cs ! j)))"
    proof (intro allI impI)
      fix j assume "j < k"
      then have "Suc j < i" using Suc by simp
      with Cons.prems(2) have "\<not> probe_passes B (W (length (calls s) + Suc j) (probe_call ((c # cs) ! Suc j)))"
        by blast
      then show "\<not> probe_passes B (W (length (calls ?s) + j) (probe_call (cs ! j)))"
        by simp
    qed
    have passes: "probe_passes B (W (length (calls ?s) + k) (probe_call (cs ! k)))"
      using Cons.prems(3) Suc by simp
    have "try_candidates B W ?s cs =
            ?s\<lparr>calls := calls ?s @ map probe_call (take (Suc k) cs),
               MODEL_IN_USE := Some (cs ! k),
               model := Some (GenerativeModel (cs ! k))\<rparr>"
      using k fails passes by (rule Cons.IH)
    with first Suc show ?thesis by (simp add: tryModel_eq)
  qed
qed

lemma try_candidates_none:
  assumes "\<forall>j<length cs. \<not> probe_passes B (W (length (calls s) + j) (probe_call (cs ! j)))"
  shows "try_candidates B W s cs = s\<lparr>calls := calls s @ map probe_call cs\<rparr>"
  using assms
proof (induction cs arbitrary: s)
  case Nil
  then show ?case by simp
next
  case (Cons c cs)
  let ?s = "s\<lparr>calls := calls s @ [probe_call c]\<rparr>"
  from Cons.prems have first: "\<not> probe_passes B (W (length (calls s)) (probe_call c))"
    by force
  have "\<forall>j<length cs. \<not> probe_passes B (W (length (calls ?s) + j) (probe_call (cs ! j)))"
  proof (intro allI impI)
    fix j assume "j < length cs"
    then have "Suc j < length (c # cs)" by simp
    with Cons.prems have "\<not> probe_passes B (W (length (calls s) + Suc j) (probe_call ((c # cs) ! Suc j)))"
      by blast
    then show "\<not> probe_passes B (W (length (calls ?s) + j) (probe_call (cs ! j)))"
      by simp
  qed
  then have "try_candidates B W ?s cs = ?s\<lparr>calls := calls ?s @ map probe_call cs\<rparr>"
    by (rule Cons.IH)
  with first show ?case by (simp add: tryModel_eq)
qed

text \<open>
  C2: when the requested model fails its probe, the first candidate fails and the
  second candidate passes, \<^verbatim>\<open>initModel\<close> binds the handle of the second candidate,
  sets \<^verbatim>\<open>MODEL_IN_USE\<close> to its name, and has made exactly three probe calls, one after
  the other: the requested model, the first candidate, the second candidate. No later
  candidate is probed.
\<close>

theorem initModel_second_candidate:
  assumes "genAI s" and "MODEL_IN_USE s = Some requested" and "requested \<noteq> []"
    and "\<not> probe_passes B (W (length (calls s)) (probe_call requested))"
    and "\<not> probe_passes B (W (length (calls s) + 1) (probe_call (CANDIDATE_MODELS ! 0)))"
    and "probe_passes B (W (length (calls s) + 2) (probe_call (CANDIDATE_MODELS ! 1)))"
  shows "model (initModel B W s) = Some (GenerativeModel (CANDIDATE_MODELS ! 1))
         \<and> MODEL_IN_USE (initModel B W s) = Some (CANDIDATE_MODELS ! 1)
         \<and> calls (initModel B W s) =
             calls s @ [probe_call requested,
                        probe_call (CANDIDATE_MODELS ! 0),
                        probe_call (CANDIDATE_MODELS ! 1)]"
proof -
  let ?s = "s\<lparr>calls := calls s @ [probe_call requested]\<rparr>"
  have len: "1 < length CANDIDATE_MODELS" by (simp add: CANDIDATE_MODELS_def)
  have fails: "\<forall>j<1. \<not> probe_passes B (W (length (calls ?s) + j) (probe_call (CANDIDATE_MODELS ! j)))"
    using assms(5) by simp
  have passes: "probe_passes B (W (length (calls ?s) + 1) (probe_call (CANDIDATE_MODELS ! 1)))"
    using assms(6) by (simp add: numeral_2_eq_2)
  have loop: "try_candidates B W ?s CANDIDATE_MODELS =
                ?s\<lparr>calls := calls ?s @ map probe_call (take (Suc 1) CANDIDATE_MODELS),
                   MODEL_IN_USE := Some (CANDIDATE_MODELS ! 1),
                   model := Some (GenerativeModel (CANDIDATE_MODELS ! 1))\<rparr>"
    using len fails passes by (rule try_candidates_first_success)
  have "initModel B W s = try_candidates B W ?s CANDIDATE_MODELS"
    using assms(1-4) by (simp add: initModel_def or_null_def tryModel_eq)
  with loop show ?thesis by (simp add: CANDIDATE_MODELS_def)
qed

lemma only_flash_probe:
  "probe_passes example_builtins (only_flash k (probe_call name)) \<longleftrightarrow> name = lit ''gemini-1.5-flash''"
  by (simp add: probe_passes_def only_flash_def probe_call_def example_builtins_def
        example_parse_def)

theorem initModel_second_candidate_witness:
  "model (initModel example_builtins only_flash
            (initial_state (Some (lit ''key'')) (Some (lit ''my-model''))))
     = Some (GenerativeModel (lit ''gemini-1.5-flash''))
   \<and> MODEL_IN_USE (initModel example_builtins only_flash
            (initial_state (Some (lit ''key'')) (Some (lit ''my-model''))))
     = Some (lit ''gemini-1.5-flash'')
   \<and> map call_model (calls (initModel example_builtins only_flash
            (initial_state (Some (lit ''key'')) (Some (lit ''my-model'')))))
     = [GenerativeModel (lit ''my-model''),
        GenerativeModel (lit ''gemini-1.5-flash-latest''),
        GenerativeModel (lit ''gemini-1.5-flash'')]"
proof -
  let ?s = "initial_state (Some (lit ''key'')) (Some (lit ''my-model''))"
  have g: "genAI ?s" and r: "MODEL_IN_USE ?s = Some (lit ''my-model'')"
    and n: "lit ''my-model'' \<noteq> []" and c: "calls ?s = []"
    by (simp_all add: genAI_def initial_state_def or_null_def)
  have p0: "\<not> probe_passes example_builtins
               (only_flash (length (calls ?s)) (probe_call (lit ''my-model'')))"
    and p1: "\<not> probe_passes example_builtins
               (only_flash (length (calls ?s) + 1) (probe_call (CANDIDATE_MODELS ! 0)))"
    and p2: "probe_passes example_builtins
               (only_flash (length (calls ?s) + 2) (probe_call (CANDIDATE_MODELS ! 1)))"
    by (simp_all add: only_flash_probe CANDIDATE_MODELS_def)
  show ?thesis
    using initModel_second_candidate [where W = only_flash, OF g r n p0 p1 p2] c
    by (simp add: CANDIDATE_MODELS_def probe_call_def)
qed

section \<open>The model handle over the life of the process\<close>



lemma init_step_Finished:
  "init p = Finished \<Longrightarrow> init_step B W p = p"
  by (simp add: init_step_def)






lemma run_Nil [simp]: "run B W p [] = p"
  by (simp add: run_def)

lemma run_Cons [simp]: "run B W p (e # es) = run B W (step B W p e) es"
  by (simp add: run_def)











section \<open>The steps of initModel and the whole of it\<close>

lemma run_init_Finished:
  "init p = Finished \<Longrightarrow> run B W p (replicate n InitStep) = p"
  by (induction n) (simp_all add: init_step_Finished)

lemma run_init_Candidates:
  "length cs < n \<Longrightarrow>
     srv (run B W \<lparr>srv = s, init = Candidates cs\<rparr> (replicate n InitStep)) = try_candidates B W s cs"
proof (induction cs arbitrary: s n)
  case Nil
  then obtain k where "n = Suc k" by (cases n) auto
  then show ?case by (simp add: init_step_def run_init_Finished)
next
  case (Cons c cs)
  then obtain k where n: "n = Suc k" and k: "length cs < k" by (cases n) auto
  show ?case
  proof (cases "probe_passes B (W (length (calls s)) (probe_call c))")
    case True
    with n show ?thesis by (simp add: init_step_def tryModel_eq run_init_Finished)
  next
    case False
    with n Cons.IH [OF k] show ?thesis by (simp add: init_step_def tryModel_eq)
  qed
qed

lemma run_init_initModel:
  assumes "length CANDIDATE_MODELS + 1 < n"
  shows "srv (run B W \<lparr>srv = s, init = NotStarted\<rparr> (replicate n InitStep)) = initModel B W s"
proof -
  from assms obtain k where n: "n = Suc k" and k: "length CANDIDATE_MODELS < k"
    by (cases n) auto
  show ?thesis
  proof (cases "genAI s")
    case False
    with n show ?thesis by (simp add: init_step_def initModel_def run_init_Finished)
  next
    case True
    show ?thesis
    proof (cases "or_null (MODEL_IN_USE s)")
      case None
      with n True run_init_Candidates [OF k] show ?thesis
        by (simp add: init_step_def initModel_def)
    next
      case (Some requested)
      show ?thesis
      proof (cases "probe_passes B (W (length (calls s)) (probe_call requested))")
        case True
        with n \<open>genAI s\<close> Some show ?thesis
          by (simp add: init_step_def initModel_def tryModel_eq run_init_Finished)
      next
        case False
        with n \<open>genAI s\<close> Some run_init_Candidates [OF k] show ?thesis
          by (simp add: init_step_def initModel_def tryModel_eq)
      qed
    qed
  qed
qed

section \<open>The example of the specification\<close>

lemma relay_answer_spec_example:
  \<open>relay_answer example_builtins
      (lit ''{"results":[{"id":1,"isPhishing":true,"confidence":2,"reasons":["a","b","c","d","e","f","g","h","i"]}]}'')
    = \<lparr>status = 200,
       body = JObj [(lit ''results'',
                JArr [JObj [(lit ''id'', JNum (Fin 1)),
                            (lit ''isPhishing'', JBool True),
                            (lit ''confidence'', JNum (Fin 1)),
                            (lit ''reasons'',
                               JArr (map (\<lambda>c. JStr (lit [c])) ''abcdefgh''))]])]\<rparr>\<close>
  by (simp add: relay_answer_def example_builtins_def example_parse_def spec_example_answer_def
        normalize_result_def clamp01_def)

end
